theory Spec2Isabelle
  imports Main "HOL-Library.Finite_Map" "HOL-Library.Word"
begin

section \<open>Kubernetes API values read by util/equality\<close>

text \<open>
  The five functions of \<^verbatim>\<open>util/equality/equality.go\<close> read and write fields of
  Kubernetes API objects. The Go structs are records here; every record is used through
  its extensible scheme, so that the fields of the Go struct that the functions never
  name travel in the extension slot and are copied with the rest of the value.

  A Go \<^verbatim>\<open>map[string]string\<close> is an optional finite map: \<open>None\<close> is the nil map,
  \<open>Some fmempty\<close> the empty non-nil map. A \<^verbatim>\<open>*int32\<close> is an optional 32-bit word.
  A slice is a list (the nil slice and the empty slice are both \<open>[]\<close>; the functions
  only take the length of a slice, index it below its length, or compare it).
  A Go pointer to an object that is never written through is the object's value, so
  \<^verbatim>\<open>current.DeepCopy()\<close> is \<open>current\<close> and \<^verbatim>\<open>updated = expected\<close> makes the
  result the value of \<open>expected\<close>.
\<close>

type_synonym int32 = "32 word"

type_synonym gomap = "(string, string) fmap option"

datatype IntOrStringType = IntstrInt | IntstrString

record IntOrString =
  IntOrString_Type :: IntOrStringType
  IntVal :: int32
  StrVal :: string

record ServicePort =
  Name :: string
  Protocol :: string
  AppProtocol :: "string option"
  Port :: int32
  TargetPort :: IntOrString
  NodePort :: int32

record ObjectMeta =
  ObjectMeta_Name :: string
  Namespace :: string
  ResourceVersion :: string
  Labels :: gomap
  Annotations :: gomap

text \<open>
  DaemonSet, Job, Deployment and Service all have the shape
  \<^verbatim>\<open>{TypeMeta; ObjectMeta; Spec; Status}\<close>; the promoted field \<^verbatim>\<open>current.Labels\<close>
  is \<open>Labels (ObjectMeta current)\<close>. The types of \<^verbatim>\<open>DaemonSetSpec\<close>,
  \<^verbatim>\<open>DeploymentSpec\<close>, \<^verbatim>\<open>PodSpec\<close> and of every status are type variables: the
  functions pass these values around whole.
\<close>

record ('m, 'spec, 'status) Object =
  ObjectMeta :: "'m ObjectMeta_scheme"
  Spec :: 'spec
  Status :: 'status

record ('m, 'pod) PodTemplateSpec =
  Template_ObjectMeta :: "'m ObjectMeta_scheme"
  Template_Spec :: 'pod

record ('m, 'pod, 'tz) JobSpec =
  Parallelism :: "int32 option"
  Completions :: "int32 option"
  ActiveDeadlineSeconds :: "64 word option"
  BackoffLimit :: "int32 option"
  ManualSelector :: "bool option"
  Template :: "('m, 'pod, 'tz) PodTemplateSpec_scheme"
  TTLSecondsAfterFinished :: "int32 option"

record 'pz ServiceSpec =
  Ports :: "'pz ServicePort_scheme list"
  Selector :: gomap
  ClusterIP :: string
  Type :: string
  ExternalIPs :: "string list"
  SessionAffinity :: string
  LoadBalancerIP :: string
  ExternalTrafficPolicy :: string
  HealthCheckNodePort :: int32

section \<open>Semantic deep equality\<close>

text \<open>
  \<^verbatim>\<open>apiequality.Semantic.DeepEqual\<close> belongs to the Kubernetes library. On the types
  the functions apply it to field by field it is:
  \<^item> on strings and \<^verbatim>\<open>int32\<close>: \<open>=\<close>;
  \<^item> on pointers: both nil, or both non-nil with equal pointees, which is \<open>=\<close> on
    \<open>option\<close>;
  \<^item> on structs: field by field, and on slices: equal length and element by element,
    which on the records and lists above is \<open>=\<close>;
  \<^item> on maps: \<open>DeepEqual_map\<close> below, where a nil map and an empty map are equal.

  On the values whose type is a type variable here (workload specs, pod specs) the
  comparison is a parameter \<open>deq\<close> of the function that uses it.
\<close>

definition DeepEqual_map :: "gomap \<Rightarrow> gomap \<Rightarrow> bool" where
  "DeepEqual_map v1 v2 =
     (let e1 = (case v1 of None \<Rightarrow> True | Some m \<Rightarrow> m = fmempty);
          e2 = (case v2 of None \<Rightarrow> True | Some m \<Rightarrow> m = fmempty)
      in if e1 \<noteq> e2 then False
         else if e1 then True
         else (case (v1, v2) of (Some m1, Some m2) \<Rightarrow> m1 = m2 | _ \<Rightarrow> False))"

section \<open>The comparison functions\<close>

text \<open>
  Each function returns \<^verbatim>\<open>(*T, bool)\<close>: the pointer is an \<open>option\<close> (\<open>None\<close> is nil).
  The bodies follow the source statement by statement; every \<^verbatim>\<open>if\<close> of the source
  rebinds the pair \<open>(updated, changed)\<close>.
\<close>

definition DaemonsetConfigChanged ::
  "('spec \<Rightarrow> 'spec \<Rightarrow> bool) \<Rightarrow> ('m, 'spec, 'status, 'z) Object_scheme \<Rightarrow>
   ('m, 'spec, 'status, 'z) Object_scheme \<Rightarrow> ('m, 'spec, 'status, 'z) Object_scheme option \<times> bool" where
  "DaemonsetConfigChanged deq current expected =
     (let changed = False;
          updated = current;
          (updated, changed) =
            (if \<not> DeepEqual_map (Labels (ObjectMeta current)) (Labels (ObjectMeta expected))
             then (updated\<lparr>ObjectMeta := (ObjectMeta updated)\<lparr>Labels := Labels (ObjectMeta expected)\<rparr>\<rparr>, True)
             else (updated, changed));
          (updated, changed) =
            (if \<not> deq (Spec current) (Spec expected)
             then (updated\<lparr>Spec := Spec expected\<rparr>, True)
             else (updated, changed))
      in if \<not> changed then (None, False) else (Some updated, True))"

text \<open>
  \<open>JobConfigChanged\<close> takes the label key \<^verbatim>\<open>operatorv1alpha1.OwningContourLabel\<close> as
  its parameter \<open>owningContourLabel\<close>: the constant is declared in the package
  \<^verbatim>\<open>api/v1alpha1\<close>. The comma-ok map read \<^verbatim>\<open>_, ok := m[k]\<close> on a non-nil map is
  \<open>fmlookup m k \<noteq> None\<close>.
\<close>

definition JobConfigChanged ::
  "string \<Rightarrow> ('pod \<Rightarrow> 'pod \<Rightarrow> bool) \<Rightarrow>
   ('m, ('tm, 'pod, 'tz, 'sz) JobSpec_scheme, 'status, 'z) Object_scheme \<Rightarrow>
   ('m, ('tm, 'pod, 'tz, 'sz) JobSpec_scheme, 'status, 'z) Object_scheme \<Rightarrow>
   ('m, ('tm, 'pod, 'tz, 'sz) JobSpec_scheme, 'status, 'z) Object_scheme option \<times> bool" where
  "JobConfigChanged owningContourLabel deq current expected =
     (let changed = False;
          updated = current;
          (updated, changed) =
            (if \<not> DeepEqual_map (Labels (ObjectMeta current)) (Labels (ObjectMeta expected))
             then (expected, True) else (updated, changed));
          (updated, changed) =
            (if Parallelism (Spec current) \<noteq> Parallelism (Spec expected)
             then (expected, True) else (updated, changed));
          (updated, changed) =
            (if BackoffLimit (Spec current) \<noteq> BackoffLimit (Spec expected)
             then (expected, True) else (updated, changed));
          (updated, changed) =
            (case Labels (Template_ObjectMeta (Template (Spec current))) of
               None \<Rightarrow> (updated, changed)
             | Some labels \<Rightarrow>
                 (if fmlookup labels owningContourLabel = None
                  then (expected, True) else (updated, changed)));
          (updated, changed) =
            (if \<not> deq (Template_Spec (Template (Spec current))) (Template_Spec (Template (Spec expected)))
             then (expected, True) else (updated, changed))
      in if \<not> changed then (None, False) else (Some updated, True))"

definition DeploymentConfigChanged ::
  "('spec \<Rightarrow> 'spec \<Rightarrow> bool) \<Rightarrow> ('m, 'spec, 'status, 'z) Object_scheme \<Rightarrow>
   ('m, 'spec, 'status, 'z) Object_scheme \<Rightarrow> ('m, 'spec, 'status, 'z) Object_scheme option \<times> bool" where
  "DeploymentConfigChanged deq current expected =
     (let changed = False;
          updated = current;
          (updated, changed) =
            (if \<not> DeepEqual_map (Labels (ObjectMeta current)) (Labels (ObjectMeta expected))
             then (expected, True) else (updated, changed));
          (updated, changed) =
            (if \<not> deq (Spec current) (Spec expected)
             then (expected, True) else (updated, changed))
      in if \<not> changed then (None, False) else (Some updated, True))"

definition ClusterIpServiceChanged ::
  "('m, ('pz, 'sz) ServiceSpec_scheme, 'status, 'z) Object_scheme \<Rightarrow>
   ('m, ('pz, 'sz) ServiceSpec_scheme, 'status, 'z) Object_scheme \<Rightarrow>
   ('m, ('pz, 'sz) ServiceSpec_scheme, 'status, 'z) Object_scheme option \<times> bool" where
  "ClusterIpServiceChanged current expected =
     (let changed = False;
          updated = current;
          (updated, changed) =
            (if length (Ports (Spec current)) \<noteq> length (Ports (Spec expected))
             then (updated\<lparr>Spec := (Spec updated)\<lparr>Ports := Ports (Spec expected)\<rparr>\<rparr>, True)
             else (if Ports (Spec current) \<noteq> Ports (Spec expected)
                   then (updated\<lparr>Spec := (Spec updated)\<lparr>Ports := Ports (Spec expected)\<rparr>\<rparr>, True)
                   else (updated, changed)));
          (updated, changed) =
            (if \<not> DeepEqual_map (Selector (Spec current)) (Selector (Spec expected))
             then (updated\<lparr>Spec := (Spec updated)\<lparr>Selector := Selector (Spec expected)\<rparr>\<rparr>, True)
             else (updated, changed));
          (updated, changed) =
            (if SessionAffinity (Spec current) \<noteq> SessionAffinity (Spec expected)
             then (updated\<lparr>Spec := (Spec updated)\<lparr>SessionAffinity := SessionAffinity (Spec expected)\<rparr>\<rparr>, True)
             else (updated, changed));
          (updated, changed) =
            (if Type (Spec current) \<noteq> Type (Spec expected)
             then (updated\<lparr>Spec := (Spec updated)\<lparr>Type := Type (Spec expected)\<rparr>\<rparr>, True)
             else (updated, changed))
      in if \<not> changed then (None, False) else (Some updated, True))"

text \<open>
  The body of the \<^verbatim>\<open>for i, p := range current.Spec.Ports\<close> loop of
  \<open>LoadBalancerServiceChanged\<close>: \<open>p\<close> is the \<open>i\<close>-th port of \<open>current\<close>, \<open>eports\<close> is
  \<^verbatim>\<open>expected.Spec.Ports\<close> and \<open>uports\<close> is \<^verbatim>\<open>updated.Spec.Ports\<close>. The loop runs
  only when the two port slices have the same length, so \<open>i\<close> is below the length of
  \<open>eports\<close> and of \<open>uports\<close> at every read (\<open>portsLoop_length\<close> below keeps the latter).
\<close>

definition portsLoopBody ::
  "nat \<Rightarrow> 'pz ServicePort_scheme \<Rightarrow> 'pz ServicePort_scheme list \<Rightarrow>
   'pz ServicePort_scheme list \<times> bool \<Rightarrow> 'pz ServicePort_scheme list \<times> bool" where
  "portsLoopBody i p eports st =
     (let (uports, changed) = st;
          (uports, changed) =
            (if Name p \<noteq> Name (eports ! i)
             then (uports[i := (uports ! i)\<lparr>Name := Name (eports ! i)\<rparr>], True)
             else (uports, changed));
          (uports, changed) =
            (if Protocol p \<noteq> Protocol (eports ! i)
             then (uports[i := (uports ! i)\<lparr>Protocol := Protocol (eports ! i)\<rparr>], True)
             else (uports, changed));
          (uports, changed) =
            (if Port p \<noteq> Port (eports ! i)
             then (uports[i := (uports ! i)\<lparr>Port := Port (eports ! i)\<rparr>], True)
             else (uports, changed));
          (uports, changed) =
            (if TargetPort p \<noteq> TargetPort (eports ! i)
             then (uports[i := (uports ! i)\<lparr>TargetPort := TargetPort (eports ! i)\<rparr>], True)
             else (uports, changed))
      in (uports, changed))"

fun portsLoop ::
  "nat \<Rightarrow> 'pz ServicePort_scheme list \<Rightarrow> 'pz ServicePort_scheme list \<Rightarrow>
   'pz ServicePort_scheme list \<times> bool \<Rightarrow> 'pz ServicePort_scheme list \<times> bool" where
  "portsLoop i [] eports st = st"
| "portsLoop i (p # ps) eports st = portsLoop (Suc i) ps eports (portsLoopBody i p eports st)"

definition LoadBalancerServiceChanged ::
  "('m, ('pz, 'sz) ServiceSpec_scheme, 'status, 'z) Object_scheme \<Rightarrow>
   ('m, ('pz, 'sz) ServiceSpec_scheme, 'status, 'z) Object_scheme \<Rightarrow>
   ('m, ('pz, 'sz) ServiceSpec_scheme, 'status, 'z) Object_scheme option \<times> bool" where
  "LoadBalancerServiceChanged current expected =
     (let changed = False;
          updated = current;
          (updated, changed) =
            (if length (Ports (Spec current)) \<noteq> length (Ports (Spec expected))
             then (updated\<lparr>Spec := (Spec updated)\<lparr>Ports := Ports (Spec expected)\<rparr>\<rparr>, True)
             else (let (uports, changed) =
                         portsLoop 0 (Ports (Spec current)) (Ports (Spec expected))
                           (Ports (Spec updated), changed)
                   in (updated\<lparr>Spec := (Spec updated)\<lparr>Ports := uports\<rparr>\<rparr>, changed)));
          (updated, changed) =
            (if \<not> DeepEqual_map (Selector (Spec current)) (Selector (Spec expected))
             then (updated\<lparr>Spec := (Spec updated)\<lparr>Selector := Selector (Spec expected)\<rparr>\<rparr>, True)
             else (updated, changed));
          (updated, changed) =
            (if ExternalTrafficPolicy (Spec current) \<noteq> ExternalTrafficPolicy (Spec expected)
             then (updated\<lparr>Spec := (Spec updated)\<lparr>ExternalTrafficPolicy := ExternalTrafficPolicy (Spec expected)\<rparr>\<rparr>, True)
             else (updated, changed));
          (updated, changed) =
            (if SessionAffinity (Spec current) \<noteq> SessionAffinity (Spec expected)
             then (updated\<lparr>Spec := (Spec updated)\<lparr>SessionAffinity := SessionAffinity (Spec expected)\<rparr>\<rparr>, True)
             else (updated, changed));
          (updated, changed) =
            (if Type (Spec current) \<noteq> Type (Spec expected)
             then (updated\<lparr>Spec := (Spec updated)\<lparr>Type := Type (Spec expected)\<rparr>\<rparr>, True)
             else (updated, changed))
      in if \<not> changed then (None, False) else (Some updated, True))"

section \<open>Names for the comparisons\<close>

text \<open>
  The predicates and the port patch below only name, in one place, the comparisons the
  source makes one after the other; the lemmas further down rewrite each function into
  a single conditional over them. No claim is stated with them.
\<close>

definition jobDiffers ::
  "string \<Rightarrow> ('pod \<Rightarrow> 'pod \<Rightarrow> bool) \<Rightarrow>
   ('m, ('tm, 'pod, 'tz, 'sz) JobSpec_scheme, 'status, 'z) Object_scheme \<Rightarrow>
   ('m, ('tm, 'pod, 'tz, 'sz) JobSpec_scheme, 'status, 'z) Object_scheme \<Rightarrow> bool" where
  "jobDiffers owningContourLabel deq current expected =
     (if \<not> DeepEqual_map (Labels (ObjectMeta current)) (Labels (ObjectMeta expected)) then True
      else if Parallelism (Spec current) \<noteq> Parallelism (Spec expected) then True
      else if BackoffLimit (Spec current) \<noteq> BackoffLimit (Spec expected) then True
      else if (case Labels (Template_ObjectMeta (Template (Spec current))) of
                 None \<Rightarrow> False | Some labels \<Rightarrow> fmlookup labels owningContourLabel = None) then True
      else \<not> deq (Template_Spec (Template (Spec current))) (Template_Spec (Template (Spec expected))))"

definition patchPort :: "'pz ServicePort_scheme \<Rightarrow> 'pz ServicePort_scheme \<Rightarrow> 'pz ServicePort_scheme" where
  "patchPort p e = p\<lparr>Name := Name e, Protocol := Protocol e, Port := Port e, TargetPort := TargetPort e\<rparr>"

definition portDiffers :: "'pz ServicePort_scheme \<Rightarrow> 'pz ServicePort_scheme \<Rightarrow> bool" where
  "portDiffers p e =
     (if Name p \<noteq> Name e then True
      else if Protocol p \<noteq> Protocol e then True
      else if Port p \<noteq> Port e then True
      else TargetPort p \<noteq> TargetPort e)"

definition lbPorts ::
  "'pz ServicePort_scheme list \<Rightarrow> 'pz ServicePort_scheme list \<Rightarrow> 'pz ServicePort_scheme list" where
  "lbPorts cports eports =
     (if length cports \<noteq> length eports then eports else map2 patchPort cports eports)"

definition lbDiffers ::
  "('m, ('pz, 'sz) ServiceSpec_scheme, 'status, 'z) Object_scheme \<Rightarrow>
   ('m, ('pz, 'sz) ServiceSpec_scheme, 'status, 'z) Object_scheme \<Rightarrow> bool" where
  "lbDiffers current expected =
     (if length (Ports (Spec current)) \<noteq> length (Ports (Spec expected)) then True
      else if list_ex (\<lambda>(p, e). portDiffers p e) (zip (Ports (Spec current)) (Ports (Spec expected))) then True
      else if \<not> DeepEqual_map (Selector (Spec current)) (Selector (Spec expected)) then True
      else if ExternalTrafficPolicy (Spec current) \<noteq> ExternalTrafficPolicy (Spec expected) then True
      else if SessionAffinity (Spec current) \<noteq> SessionAffinity (Spec expected) then True
      else Type (Spec current) \<noteq> Type (Spec expected))"

section \<open>Example objects\<close>

text \<open>
  Concrete objects for the closed theorems below. The workload and pod specs are stood
  for by an image name and compared with \<open>=\<close>; \<open>exampleOwningLabel\<close> is the key passed
  for \<^verbatim>\<open>OwningContourLabel\<close>.
\<close>

definition exampleOwningLabel :: string where
  "exampleOwningLabel = ''contour.operator.projectcontour.io/owning-contour''"

definition exampleMeta :: "string \<Rightarrow> gomap \<Rightarrow> ObjectMeta" where
  "exampleMeta version labels =
     \<lparr>ObjectMeta_Name = ''contour'', Namespace = ''projectcontour'', ResourceVersion = version,
      Labels = labels, Annotations = None\<rparr>"

definition exampleWorkload :: "string \<Rightarrow> gomap \<Rightarrow> string \<Rightarrow> (unit, string, nat) Object" where
  "exampleWorkload version labels spec =
     \<lparr>ObjectMeta = exampleMeta version labels, Spec = spec, Status = 1\<rparr>"

definition exampleJob ::
  "int32 option \<Rightarrow> int32 option \<Rightarrow> gomap \<Rightarrow> (unit, (unit, string, unit) JobSpec, nat) Object" where
  "exampleJob parallelism completions templateLabels =
     \<lparr>ObjectMeta = exampleMeta ''7'' None,
      Spec = \<lparr>Parallelism = parallelism, Completions = completions, ActiveDeadlineSeconds = None,
              BackoffLimit = Some 1, ManualSelector = None,
              Template = \<lparr>Template_ObjectMeta = exampleMeta '''' templateLabels,
                          Template_Spec = ''contour:v1''\<rparr>,
              TTLSecondsAfterFinished = None\<rparr>,
      Status = 0\<rparr>"

definition examplePort :: "string \<Rightarrow> int32 \<Rightarrow> int32 \<Rightarrow> int32 \<Rightarrow> ServicePort" where
  "examplePort name port target node =
     \<lparr>Name = name, Protocol = ''TCP'', AppProtocol = None, Port = port,
      TargetPort = \<lparr>IntOrString_Type = IntstrInt, IntVal = target, StrVal = ''''\<rparr>,
      NodePort = node\<rparr>"

definition exampleService ::
  "string \<Rightarrow> ServicePort list \<Rightarrow> string \<Rightarrow> int32 \<Rightarrow> (unit, unit ServiceSpec, nat) Object" where
  "exampleService type ports clusterIP healthPort =
     \<lparr>ObjectMeta = exampleMeta ''3'' None,
      Spec = \<lparr>Ports = ports, Selector = Some (fmupd ''app'' ''envoy'' fmempty), ClusterIP = clusterIP,
              Type = type, ExternalIPs = [], SessionAffinity = ''None'', LoadBalancerIP = '''',
              ExternalTrafficPolicy = ''Local'', HealthCheckNodePort = healthPort\<rparr>,
      Status = 0\<rparr>"

section \<open>What each function returns\<close>

lemmas example_defs = exampleOwningLabel_def exampleMeta_def exampleWorkload_def exampleJob_def
  examplePort_def exampleService_def

lemma DeepEqual_map_refl: "DeepEqual_map m m"
  by (cases m) (simp_all add: DeepEqual_map_def)

lemma DaemonsetConfigChanged_result:
  "DaemonsetConfigChanged deq current expected =
     (if \<not> DeepEqual_map (Labels (ObjectMeta current)) (Labels (ObjectMeta expected))
         \<or> \<not> deq (Spec current) (Spec expected)
      then (Some (current\<lparr>ObjectMeta := (ObjectMeta current)
                     \<lparr>Labels := (if DeepEqual_map (Labels (ObjectMeta current)) (Labels (ObjectMeta expected))
                                 then Labels (ObjectMeta current) else Labels (ObjectMeta expected))\<rparr>,
                   Spec := (if deq (Spec current) (Spec expected) then Spec current else Spec expected)\<rparr>), True)
      else (None, False))"
  by (simp add: DaemonsetConfigChanged_def)

lemma JobConfigChanged_result:
  "JobConfigChanged k deq current expected =
     (if jobDiffers k deq current expected then (Some expected, True) else (None, False))"
  by (simp add: JobConfigChanged_def jobDiffers_def split: option.splits)

lemma DeploymentConfigChanged_result:
  "DeploymentConfigChanged deq current expected =
     (if \<not> DeepEqual_map (Labels (ObjectMeta current)) (Labels (ObjectMeta expected))
         \<or> \<not> deq (Spec current) (Spec expected)
      then (Some expected, True) else (None, False))"
  by (simp add: DeploymentConfigChanged_def)

lemma ClusterIpServiceChanged_result:
  "ClusterIpServiceChanged current expected =
     (if Ports (Spec current) \<noteq> Ports (Spec expected)
         \<or> \<not> DeepEqual_map (Selector (Spec current)) (Selector (Spec expected))
         \<or> SessionAffinity (Spec current) \<noteq> SessionAffinity (Spec expected)
         \<or> Type (Spec current) \<noteq> Type (Spec expected)
      then (Some (current\<lparr>Spec := (Spec current)
                    \<lparr>Ports := Ports (Spec expected),
                     Selector := (if DeepEqual_map (Selector (Spec current)) (Selector (Spec expected))
                                  then Selector (Spec current) else Selector (Spec expected)),
                     SessionAffinity := SessionAffinity (Spec expected),
                     Type := Type (Spec expected)\<rparr>\<rparr>), True)
      else (None, False))"
  by (auto simp add: ClusterIpServiceChanged_def)

subsection \<open>The port loop\<close>

text \<open>
  When iteration \<open>i\<close> starts, the first \<open>i\<close> ports of \<open>updated\<close> are already patched and
  the others are still those of \<open>current\<close>.
\<close>

lemma portsLoopBody_at:
  assumes "length done = i"
  shows "portsLoopBody i p eports (done @ p # ps, ch) =
           (done @ patchPort p (eports ! i) # ps, ch \<or> portDiffers p (eports ! i))"
  using assms by (auto simp add: portsLoopBody_def patchPort_def portDiffers_def)

lemma portsLoop_at:
  assumes "length done = i" and "i + length ps \<le> length eports"
  shows "portsLoop i ps eports (done @ ps, ch) =
           (done @ map2 patchPort ps (drop i eports),
            ch \<or> list_ex (\<lambda>(p, e). portDiffers p e) (zip ps (drop i eports)))"
  using assms
proof (induction ps arbitrary: i "done" ch)
  case Nil
  then show ?case by simp
next
  case (Cons p ps)
  from Cons.prems have lt: "i < length eports" by simp
  have dr: "drop i eports = eports ! i # drop (Suc i) eports"
    using lt by (simp add: Cons_nth_drop_Suc)
  have len: "length (done @ [patchPort p (eports ! i)]) = Suc i"
    using Cons.prems by simp
  have le: "Suc i + length ps \<le> length eports"
    using Cons.prems by simp
  have "portsLoop i (p # ps) eports (done @ p # ps, ch) =
        portsLoop (Suc i) ps eports
          ((done @ [patchPort p (eports ! i)]) @ ps, ch \<or> portDiffers p (eports ! i))"
    using Cons.prems by (simp add: portsLoopBody_at)
  also have "\<dots> = ((done @ [patchPort p (eports ! i)]) @ map2 patchPort ps (drop (Suc i) eports),
                  (ch \<or> portDiffers p (eports ! i))
                  \<or> list_ex (\<lambda>(p, e). portDiffers p e) (zip ps (drop (Suc i) eports)))"
    by (rule Cons.IH [OF len le])
  finally show ?case by (simp add: dr)
qed

lemma portsLoop_result:
  assumes "length cports = length eports"
  shows "portsLoop 0 cports eports (cports, False) =
           (map2 patchPort cports eports, list_ex (\<lambda>(p, e). portDiffers p e) (zip cports eports))"
  using portsLoop_at [of "[]" 0 cports eports False] assms by simp

lemma portsLoop_length: "length (fst (portsLoop i ps eports st)) = length (fst st)"
proof (induction ps arbitrary: i st)
  case Nil
  then show ?case by simp
next
  case (Cons p ps)
  have "length (fst (portsLoopBody i p eports st)) = length (fst st)"
    by (cases st) (simp add: portsLoopBody_def)
  with Cons.IH show ?case by simp
qed

lemma map2_patchPort_same:
  "length cs = length es \<Longrightarrow> \<not> list_ex (\<lambda>(p, e). portDiffers p e) (zip cs es) \<Longrightarrow>
   map2 patchPort cs es = cs"
  by (induction cs es rule: list_induct2) (auto simp add: patchPort_def portDiffers_def split: if_splits)

lemma LoadBalancerServiceChanged_result:
  "LoadBalancerServiceChanged current expected =
     (if lbDiffers current expected
      then (Some (current\<lparr>Spec := (Spec current)
                    \<lparr>Ports := lbPorts (Ports (Spec current)) (Ports (Spec expected)),
                     Selector := (if DeepEqual_map (Selector (Spec current)) (Selector (Spec expected))
                                  then Selector (Spec current) else Selector (Spec expected)),
                     ExternalTrafficPolicy := ExternalTrafficPolicy (Spec expected),
                     SessionAffinity := SessionAffinity (Spec expected),
                     Type := Type (Spec expected)\<rparr>\<rparr>), True)
      else (None, False))"
proof (cases "length (Ports (Spec current)) = length (Ports (Spec expected))")
  case False
  then show ?thesis
    by (auto simp add: LoadBalancerServiceChanged_def lbDiffers_def lbPorts_def)
next
  case True
  note loop = portsLoop_result [OF True]
  show ?thesis
    using True map2_patchPort_same [OF True]
    by (auto simp add: LoadBalancerServiceChanged_def lbDiffers_def lbPorts_def loop)
qed

subsection \<open>Facts about the comparisons\<close>

lemma zip_same_no_portDiffers: "\<not> list_ex (\<lambda>(p, e). portDiffers p e) (zip ps ps)"
  by (auto simp add: list_ex_iff zip_same portDiffers_def)

lemma lbDiffers_same: "\<not> lbDiffers s s"
  by (simp add: lbDiffers_def zip_same_no_portDiffers DeepEqual_map_refl)

lemma jobDiffers_same:
  "deq (Template_Spec (Template (Spec j))) (Template_Spec (Template (Spec j))) \<Longrightarrow>
   jobDiffers k deq j j =
     (case Labels (Template_ObjectMeta (Template (Spec j))) of
        None \<Rightarrow> False | Some labels \<Rightarrow> fmlookup labels k = None)"
  by (simp add: jobDiffers_def DeepEqual_map_refl)

lemma list_ex_portDiffers_nth:
  assumes "length cs = length es"
  shows "list_ex (\<lambda>(p, e). portDiffers p e) (zip cs es) =
           (\<exists>j<length cs. portDiffers (cs ! j) (es ! j))"
  using assms by (auto simp add: list_ex_iff set_zip)

lemma lbDiffers_node_ports:
  assumes len: "length eports = length (Ports (Spec current))"
    and eq: "\<forall>j < length eports.
               eports ! j = (Ports (Spec current) ! j)\<lparr>NodePort := NodePort (eports ! j)\<rparr>"
  shows "\<not> lbDiffers current
             (current\<lparr>Spec := (Spec current)\<lparr>Ports := eports, HealthCheckNodePort := h\<rparr>\<rparr>)"
proof -
  have "\<not> portDiffers (Ports (Spec current) ! j) (eports ! j)" if "j < length eports" for j
  proof -
    from eq that
    have "eports ! j = (Ports (Spec current) ! j)\<lparr>NodePort := NodePort (eports ! j)\<rparr>"
      by blast
    then have "Name (eports ! j) = Name (Ports (Spec current) ! j)"
      "Protocol (eports ! j) = Protocol (Ports (Spec current) ! j)"
      "Port (eports ! j) = Port (Ports (Spec current) ! j)"
      "TargetPort (eports ! j) = TargetPort (Ports (Spec current) ! j)"
      by (metis ServicePort.select_convs ServicePort.surjective ServicePort.update_convs(6))+
    then show ?thesis by (simp add: portDiffers_def)
  qed
  then have "\<not> list_ex (\<lambda>(p, e). portDiffers p e) (zip (Ports (Spec current)) eports)"
    using len by (simp add: list_ex_portDiffers_nth)
  then show ?thesis
    using len by (simp add: lbDiffers_def DeepEqual_map_refl)
qed

section \<open>The claims\<close>

subsection \<open>C1: what a changed workload result keeps of current\<close>

text \<open>
  Claim C1 says that for \<open>DaemonsetConfigChanged\<close> and \<open>DeploymentConfigChanged\<close> a result
  with \<open>changed = true\<close> is a copy of \<open>current\<close> in which only the labels and the spec may
  come from \<open>expected\<close>. This holds for \<open>DaemonsetConfigChanged\<close>: \<open>updated\<close> is \<open>current\<close>
  with its labels and its spec each taken from \<open>current\<close> or from \<open>expected\<close>.
  \<open>DeploymentConfigChanged\<close> assigns \<^verbatim>\<open>updated = expected\<close>, as its comment announces
  ("returns true and the expected Deployment"): there \<open>updated\<close> is \<open>expected\<close> whole, with
  the metadata and status of \<open>expected\<close>.
\<close>

theorem workload_changed_result:
  "(snd (DaemonsetConfigChanged deq current expected) \<longrightarrow>
      (\<exists>updated. DaemonsetConfigChanged deq current expected = (Some updated, True)
         \<and> updated = current\<lparr>ObjectMeta := (ObjectMeta current)\<lparr>Labels := Labels (ObjectMeta updated)\<rparr>,
                             Spec := Spec updated\<rparr>
         \<and> (Labels (ObjectMeta updated) = Labels (ObjectMeta current)
            \<or> Labels (ObjectMeta updated) = Labels (ObjectMeta expected))
         \<and> (Spec updated = Spec current \<or> Spec updated = Spec expected)))
 \<and> (snd (DeploymentConfigChanged deq' current' expected') \<longrightarrow>
      DeploymentConfigChanged deq' current' expected' = (Some expected', True))"
  by (auto simp add: DaemonsetConfigChanged_result DeploymentConfigChanged_result)

text \<open>
  The scenario of the specification for the daemon set (labels \<open>a=1\<close> against \<open>a=2\<close>,
  equal specs; the resource version of \<open>current\<close> survives), and a deployment whose spec
  differs.
\<close>

theorem workload_changed_result_witness:
  "snd (DaemonsetConfigChanged (=)
          (exampleWorkload ''41'' (Some (fmupd ''a'' ''1'' fmempty)) ''envoy:v1'')
          (exampleWorkload '''' (Some (fmupd ''a'' ''2'' fmempty)) ''envoy:v1''))
 \<and> (\<exists>updated.
        DaemonsetConfigChanged (=)
          (exampleWorkload ''41'' (Some (fmupd ''a'' ''1'' fmempty)) ''envoy:v1'')
          (exampleWorkload '''' (Some (fmupd ''a'' ''2'' fmempty)) ''envoy:v1'')
          = (Some updated, True)
      \<and> ResourceVersion (ObjectMeta updated) = ''41''
      \<and> Status updated = 1)
 \<and> snd (DeploymentConfigChanged (=)
          (exampleWorkload ''41'' None ''contour:v1'') (exampleWorkload '''' None ''contour:v2''))
 \<and> DeploymentConfigChanged (=)
          (exampleWorkload ''41'' None ''contour:v1'') (exampleWorkload '''' None ''contour:v2'')
      = (Some (exampleWorkload '''' None ''contour:v2''), True)"
proof -
  let ?c = "exampleWorkload ''41'' (Some (fmupd ''a'' ''1'' fmempty)) ''envoy:v1''"
  let ?e = "exampleWorkload '''' (Some (fmupd ''a'' ''2'' fmempty)) ''envoy:v1''"
  let ?c' = "exampleWorkload ''41'' None ''contour:v1''"
  let ?e' = "exampleWorkload '''' None ''contour:v2''"
  have ne: "\<not> DeepEqual_map (Some (fmupd ''a'' ''1'' fmempty)) (Some (fmupd ''a'' ''2'' fmempty))"
    by code_simp
  have h1: "snd (DaemonsetConfigChanged (=) ?c ?e)"
    using ne by (simp add: DaemonsetConfigChanged_def example_defs)
  have h2: "snd (DeploymentConfigChanged (=) ?c' ?e')"
    by (simp add: DeploymentConfigChanged_def DeepEqual_map_def example_defs)
  from workload_changed_result [of "(=)" ?c ?e "(=)" ?c' ?e'] h1 h2
  obtain updated where u: "DaemonsetConfigChanged (=) ?c ?e = (Some updated, True)"
      "updated = ?c\<lparr>ObjectMeta := (ObjectMeta ?c)\<lparr>Labels := Labels (ObjectMeta updated)\<rparr>,
                    Spec := Spec updated\<rparr>"
    and d: "DeploymentConfigChanged (=) ?c' ?e' = (Some ?e', True)"
    by blast
  have "ResourceVersion (ObjectMeta updated) = ''41''"
    by (subst u(2)) (simp add: example_defs)
  moreover have "Status updated = 1"
    by (subst u(2)) (simp add: example_defs)
  ultimately show ?thesis
    using u(1) d h1 h2 by simp
qed

text \<open>
  Against C1 as stated: the deployment function returns the resource version of
  \<open>expected\<close>, not the one of \<open>current\<close>.
\<close>

theorem deployment_returns_expected_metadata_counterexample:
  "DeploymentConfigChanged (=)
      (exampleWorkload ''41'' None ''contour:v1'') (exampleWorkload '''' None ''contour:v2'')
     = (Some (exampleWorkload '''' None ''contour:v2''), True)
   \<and> ResourceVersion (ObjectMeta (exampleWorkload '''' None ''contour:v2''))
       \<noteq> ResourceVersion (ObjectMeta (exampleWorkload ''41'' None ''contour:v1''))"
  by (simp add: DeploymentConfigChanged_def DeepEqual_map_def example_defs)

subsection \<open>C2: the completion count of a changed job\<close>

text \<open>
  Claim C2 says that when \<open>JobConfigChanged\<close> returns \<open>changed = true\<close>,
  \<^verbatim>\<open>Spec.Completions\<close> of \<open>updated\<close> is the one of \<open>current\<close>. The function returns
  \<open>expected\<close> itself ("returns true and the expected job"), so the completion count of
  \<open>updated\<close> is the one of \<open>expected\<close>.
\<close>

theorem Job_changed_has_completions_of_expected:
  assumes "snd (JobConfigChanged owningContourLabel deq current expected)"
  shows "\<exists>updated. fst (JobConfigChanged owningContourLabel deq current expected) = Some updated
                  \<and> Completions (Spec updated) = Completions (Spec expected)"
  using assms by (simp add: JobConfigChanged_result split: if_splits)

theorem Job_changed_has_completions_of_expected_witness:
  "snd (JobConfigChanged exampleOwningLabel (=)
          (exampleJob (Some 1) (Some 1) None) (exampleJob (Some 2) (Some 5) None))
 \<and> (\<exists>updated. fst (JobConfigChanged exampleOwningLabel (=)
                      (exampleJob (Some 1) (Some 1) None) (exampleJob (Some 2) (Some 5) None))
                 = Some updated
              \<and> Completions (Spec updated) = Completions (Spec (exampleJob (Some 2) (Some 5) None)))"
proof -
  have h: "snd (JobConfigChanged exampleOwningLabel (=)
                  (exampleJob (Some 1) (Some 1) None) (exampleJob (Some 2) (Some 5) None))"
    by (simp add: JobConfigChanged_def DeepEqual_map_def example_defs)
  from Job_changed_has_completions_of_expected [OF h] h show ?thesis by simp
qed

text \<open>
  Against C2 as stated: \<open>current\<close> has one completion, \<open>expected\<close> has none set and another
  parallelism; \<open>updated\<close> is \<open>expected\<close> and has no completion count.
\<close>

theorem Job_completions_overwritten_counterexample:
  "JobConfigChanged exampleOwningLabel (=)
      (exampleJob (Some 1) (Some 1) (Some (fmupd exampleOwningLabel ''contour'' fmempty)))
      (exampleJob (Some 2) None (Some (fmupd exampleOwningLabel ''contour'' fmempty)))
     = (Some (exampleJob (Some 2) None (Some (fmupd exampleOwningLabel ''contour'' fmempty))), True)
   \<and> Completions (Spec (exampleJob (Some 2) None (Some (fmupd exampleOwningLabel ''contour'' fmempty))))
       \<noteq> Completions (Spec (exampleJob (Some 1) (Some 1) (Some (fmupd exampleOwningLabel ''contour'' fmempty))))"
  by (simp add: JobConfigChanged_def DeepEqual_map_def example_defs)

subsection \<open>C3: any detected difference returns expected\<close>

text \<open>
  Claim C3: for \<open>JobConfigChanged\<close>, whenever one of the compared differences is detected
  (labels, parallelism, backoff limit, template labels that are non-nil and lack the
  ownership marker, template spec), the result is \<open>changed = true\<close> and \<open>updated\<close> is
  \<open>expected\<close> in its entirety.
\<close>

theorem Job_any_difference_returns_expected:
  assumes "\<not> DeepEqual_map (Labels (ObjectMeta current)) (Labels (ObjectMeta expected))
         \<or> Parallelism (Spec current) \<noteq> Parallelism (Spec expected)
         \<or> BackoffLimit (Spec current) \<noteq> BackoffLimit (Spec expected)
         \<or> (\<exists>labels. Labels (Template_ObjectMeta (Template (Spec current))) = Some labels
                    \<and> fmlookup labels owningContourLabel = None)
         \<or> \<not> deq (Template_Spec (Template (Spec current))) (Template_Spec (Template (Spec expected)))"
  shows "JobConfigChanged owningContourLabel deq current expected = (Some expected, True)"
  using assms by (auto simp add: JobConfigChanged_result jobDiffers_def)

text \<open>
  The scenario of the specification: the template labels of \<open>current\<close> are \<open>{}\<close>, \<open>expected\<close>
  carries the ownership marker.
\<close>

theorem Job_any_difference_returns_expected_witness:
  "(\<exists>labels. Labels (Template_ObjectMeta (Template (Spec (exampleJob (Some 1) (Some 1) (Some fmempty)))))
               = Some labels
            \<and> fmlookup labels exampleOwningLabel = None)
 \<and> JobConfigChanged exampleOwningLabel (=)
      (exampleJob (Some 1) (Some 1) (Some fmempty))
      (exampleJob (Some 1) (Some 1) (Some (fmupd exampleOwningLabel ''contour'' fmempty)))
     = (Some (exampleJob (Some 1) (Some 1) (Some (fmupd exampleOwningLabel ''contour'' fmempty))), True)"
proof -
  have h: "\<exists>labels. Labels (Template_ObjectMeta (Template (Spec (exampleJob (Some 1) (Some 1) (Some fmempty)))))
                      = Some labels
                   \<and> fmlookup labels exampleOwningLabel = None"
    by (simp add: example_defs)
  then have "\<not> DeepEqual_map (Labels (ObjectMeta (exampleJob (Some 1) (Some 1) (Some fmempty))))
                 (Labels (ObjectMeta (exampleJob (Some 1) (Some 1)
                    (Some (fmupd exampleOwningLabel ''contour'' fmempty)))))
         \<or> Parallelism (Spec (exampleJob (Some 1) (Some 1) (Some fmempty)))
             \<noteq> Parallelism (Spec (exampleJob (Some 1) (Some 1)
                    (Some (fmupd exampleOwningLabel ''contour'' fmempty))))
         \<or> BackoffLimit (Spec (exampleJob (Some 1) (Some 1) (Some fmempty)))
             \<noteq> BackoffLimit (Spec (exampleJob (Some 1) (Some 1)
                    (Some (fmupd exampleOwningLabel ''contour'' fmempty))))
         \<or> (\<exists>labels. Labels (Template_ObjectMeta (Template (Spec (exampleJob (Some 1) (Some 1) (Some fmempty)))))
                      = Some labels
                    \<and> fmlookup labels exampleOwningLabel = None)
         \<or> \<not> (Template_Spec (Template (Spec (exampleJob (Some 1) (Some 1) (Some fmempty))))
              = Template_Spec (Template (Spec (exampleJob (Some 1) (Some 1)
                    (Some (fmupd exampleOwningLabel ''contour'' fmempty))))))"
    by blast
  from Job_any_difference_returns_expected [where deq = "(=)", OF this] h show ?thesis by blast
qed

subsection \<open>C4: template labels without the ownership marker\<close>

text \<open>
  Claim C4: for \<open>JobConfigChanged\<close>, whenever the pod-template labels of \<open>current\<close> are a
  non-nil map without the ownership marker key, the result is \<open>changed = true\<close> with
  \<open>updated\<close> set to \<open>expected\<close>, whatever the other compared fields are.
\<close>

theorem Job_missing_marker_returns_expected:
  assumes "Labels (Template_ObjectMeta (Template (Spec current))) = Some labels"
    and "fmlookup labels owningContourLabel = None"
  shows "JobConfigChanged owningContourLabel deq current expected = (Some expected, True)"
  using assms by (simp add: JobConfigChanged_result jobDiffers_def)

text \<open>
  The template of \<open>current\<close> only has a job-generated label; every other compared field
  of \<open>current\<close> equals the one of \<open>expected\<close>.
\<close>

theorem Job_missing_marker_returns_expected_witness:
  "Labels (Template_ObjectMeta (Template (Spec
      (exampleJob (Some 1) (Some 1) (Some (fmupd ''job-name'' ''contour-certgen'' fmempty))))))
     = Some (fmupd ''job-name'' ''contour-certgen'' fmempty)
 \<and> fmlookup (fmupd ''job-name'' ''contour-certgen'' fmempty) exampleOwningLabel = None
 \<and> JobConfigChanged exampleOwningLabel (=)
      (exampleJob (Some 1) (Some 1) (Some (fmupd ''job-name'' ''contour-certgen'' fmempty)))
      (exampleJob (Some 1) (Some 1) (Some (fmupd exampleOwningLabel ''contour'' fmempty)))
     = (Some (exampleJob (Some 1) (Some 1) (Some (fmupd exampleOwningLabel ''contour'' fmempty))), True)"
proof -
  have h1: "Labels (Template_ObjectMeta (Template (Spec
      (exampleJob (Some 1) (Some 1) (Some (fmupd ''job-name'' ''contour-certgen'' fmempty))))))
     = Some (fmupd ''job-name'' ''contour-certgen'' fmempty)"
    by (simp add: example_defs)
  have h2: "fmlookup (fmupd ''job-name'' ''contour-certgen'' fmempty) exampleOwningLabel = None"
    by (simp add: example_defs)
  from Job_missing_marker_returns_expected [OF h1 h2] h1 h2 show ?thesis by simp
qed

subsection \<open>C5: one differing target port on the load-balancer service\<close>

text \<open>
  Claim C5: for \<open>LoadBalancerServiceChanged\<close>, when \<open>current\<close> and \<open>expected\<close> have as many
  ports and, among the compared fields, differ only in the target port of port \<open>i\<close>,
  the result is \<open>changed = true\<close> and \<open>updated\<close> is \<open>current\<close> with exactly the target port
  of port \<open>i\<close> set to the one of \<open>expected\<close>: the node port of every port and all other
  fields are those of \<open>current\<close>. The node ports and the other fields of \<open>expected\<close> that
  are not compared may be any.
\<close>

theorem LoadBalancer_patches_one_target_port:
  assumes len: "length (Ports (Spec current)) = length (Ports (Spec expected))"
    and i: "i < length (Ports (Spec current))"
    and tp: "TargetPort (Ports (Spec current) ! i) \<noteq> TargetPort (Ports (Spec expected) ! i)"
    and rest: "\<forall>j < length (Ports (Spec current)).
                 Name (Ports (Spec current) ! j) = Name (Ports (Spec expected) ! j)
               \<and> Protocol (Ports (Spec current) ! j) = Protocol (Ports (Spec expected) ! j)
               \<and> Port (Ports (Spec current) ! j) = Port (Ports (Spec expected) ! j)
               \<and> (j \<noteq> i \<longrightarrow>
                    TargetPort (Ports (Spec current) ! j) = TargetPort (Ports (Spec expected) ! j))"
    and sel: "DeepEqual_map (Selector (Spec current)) (Selector (Spec expected))"
    and etp: "ExternalTrafficPolicy (Spec current) = ExternalTrafficPolicy (Spec expected)"
    and sa: "SessionAffinity (Spec current) = SessionAffinity (Spec expected)"
    and ty: "Type (Spec current) = Type (Spec expected)"
  shows "LoadBalancerServiceChanged current expected =
           (Some (current\<lparr>Spec := (Spec current)
                    \<lparr>Ports := (Ports (Spec current))
                       [i := (Ports (Spec current) ! i)
                               \<lparr>TargetPort := TargetPort (Ports (Spec expected) ! i)\<rparr>]\<rparr>\<rparr>), True)"
proof -
  let ?cs = "Ports (Spec current)" and ?es = "Ports (Spec expected)"
  let ?patched = "?cs[i := (?cs ! i)\<lparr>TargetPort := TargetPort (?es ! i)\<rparr>]"
  have "portDiffers (?cs ! i) (?es ! i)"
    using tp by (simp add: portDiffers_def)
  then have "list_ex (\<lambda>(p, e). portDiffers p e) (zip ?cs ?es)"
    using i by (auto simp add: list_ex_portDiffers_nth [OF len])
  then have diff: "lbDiffers current expected"
    by (simp add: lbDiffers_def)
  have ports: "map2 patchPort ?cs ?es = ?patched"
  proof (rule nth_equalityI)
    show "length (map2 patchPort ?cs ?es) = length ?patched"
      using len by simp
  next
    fix j
    assume "j < length (map2 patchPort ?cs ?es)"
    then have j: "j < length ?cs" using len by simp
    then have "map2 patchPort ?cs ?es ! j = patchPort (?cs ! j) (?es ! j)"
      using len by simp
    also have "\<dots> = ?patched ! j"
      using rest j by (cases "j = i") (simp_all add: patchPort_def)
    finally show "map2 patchPort ?cs ?es ! j = ?patched ! j" .
  qed
  have "lbPorts ?cs ?es = ?patched"
    using len ports by (simp add: lbPorts_def)
  then show ?thesis
    using diff sel etp sa ty by (simp add: LoadBalancerServiceChanged_result)
qed

text \<open>
  Two ports with node ports 30080 and 30443 assigned in \<open>current\<close>; \<open>expected\<close> has no
  node ports, no cluster address, no health-check port, and the target port 9443 instead
  of 8443 on the second port.
\<close>

theorem LoadBalancer_patches_one_target_port_witness:
  "TargetPort (examplePort ''https'' 443 8443 30443) \<noteq> TargetPort (examplePort ''https'' 443 9443 0)
 \<and> LoadBalancerServiceChanged
      (exampleService ''LoadBalancer''
         [examplePort ''http'' 80 8080 30080, examplePort ''https'' 443 8443 30443] ''10.0.0.7'' 32000)
      (exampleService ''LoadBalancer''
         [examplePort ''http'' 80 8080 0, examplePort ''https'' 443 9443 0] '''' 0)
     = (Some (exampleService ''LoadBalancer''
         [examplePort ''http'' 80 8080 30080, examplePort ''https'' 443 9443 30443] ''10.0.0.7'' 32000),
        True)"
proof -
  let ?c = "exampleService ''LoadBalancer''
         [examplePort ''http'' 80 8080 30080, examplePort ''https'' 443 8443 30443] ''10.0.0.7'' 32000"
  let ?e = "exampleService ''LoadBalancer''
         [examplePort ''http'' 80 8080 0, examplePort ''https'' 443 9443 0] '''' 0"
  have len: "length (Ports (Spec ?c)) = length (Ports (Spec ?e))"
    by (simp add: example_defs)
  have i: "1 < length (Ports (Spec ?c))"
    by (simp add: example_defs)
  have tp: "TargetPort (Ports (Spec ?c) ! 1) \<noteq> TargetPort (Ports (Spec ?e) ! 1)"
    by (simp add: example_defs)
  have rest: "\<forall>j < length (Ports (Spec ?c)).
                 Name (Ports (Spec ?c) ! j) = Name (Ports (Spec ?e) ! j)
               \<and> Protocol (Ports (Spec ?c) ! j) = Protocol (Ports (Spec ?e) ! j)
               \<and> Port (Ports (Spec ?c) ! j) = Port (Ports (Spec ?e) ! j)
               \<and> (j \<noteq> 1 \<longrightarrow> TargetPort (Ports (Spec ?c) ! j) = TargetPort (Ports (Spec ?e) ! j))"
    by (simp add: example_defs less_Suc_eq)
  have sel: "DeepEqual_map (Selector (Spec ?c)) (Selector (Spec ?e))"
    by (simp add: example_defs DeepEqual_map_refl)
  have etp: "ExternalTrafficPolicy (Spec ?c) = ExternalTrafficPolicy (Spec ?e)"
    and sa: "SessionAffinity (Spec ?c) = SessionAffinity (Spec ?e)"
    and ty: "Type (Spec ?c) = Type (Spec ?e)"
    by (simp_all add: example_defs)
  have "LoadBalancerServiceChanged ?c ?e =
          (Some (?c\<lparr>Spec := (Spec ?c)
                   \<lparr>Ports := (Ports (Spec ?c))
                      [1 := (Ports (Spec ?c) ! 1)\<lparr>TargetPort := TargetPort (Ports (Spec ?e) ! 1)\<rparr>]\<rparr>\<rparr>), True)"
    by (rule LoadBalancer_patches_one_target_port [OF len i tp rest sel etp sa ty])
  then show ?thesis
    by (simp add: example_defs)
qed

subsection \<open>C6: port lists of different lengths on the internal service\<close>

text \<open>
  Claim C6: for \<open>ClusterIpServiceChanged\<close>, when the port lists of \<open>current\<close> and
  \<open>expected\<close> have different lengths and the other compared fields (selector, session
  affinity, type) agree, the result is \<open>changed = true\<close> and \<open>updated\<close> is \<open>current\<close> with
  the port list of \<open>expected\<close> in full: the cluster address and every other field are
  those of \<open>current\<close>.
\<close>

theorem ClusterIp_port_count_mismatch_replaces_ports:
  assumes "length (Ports (Spec current)) \<noteq> length (Ports (Spec expected))"
    and "DeepEqual_map (Selector (Spec current)) (Selector (Spec expected))"
    and "SessionAffinity (Spec current) = SessionAffinity (Spec expected)"
    and "Type (Spec current) = Type (Spec expected)"
  shows "ClusterIpServiceChanged current expected =
           (Some (current\<lparr>Spec := (Spec current)\<lparr>Ports := Ports (Spec expected)\<rparr>\<rparr>), True)"
  using assms by (auto simp add: ClusterIpServiceChanged_result)

text \<open>
  The scenario of the specification: \<open>current\<close> has two ports and \<open>expected\<close> three;
  \<open>current\<close> has the cluster address 10.0.0.7 and \<open>expected\<close> none.
\<close>

theorem ClusterIp_port_count_mismatch_replaces_ports_witness:
  "length (Ports (Spec (exampleService ''ClusterIP''
       [examplePort ''xds'' 8001 8001 0, examplePort ''http'' 80 8080 0] ''10.0.0.7'' 0)))
   \<noteq> length (Ports (Spec (exampleService ''ClusterIP''
       [examplePort ''xds'' 8001 8001 0, examplePort ''http'' 80 8080 0,
        examplePort ''https'' 443 8443 0] '''' 0)))
 \<and> ClusterIpServiceChanged
      (exampleService ''ClusterIP''
         [examplePort ''xds'' 8001 8001 0, examplePort ''http'' 80 8080 0] ''10.0.0.7'' 0)
      (exampleService ''ClusterIP''
         [examplePort ''xds'' 8001 8001 0, examplePort ''http'' 80 8080 0,
          examplePort ''https'' 443 8443 0] '''' 0)
     = (Some (exampleService ''ClusterIP''
         [examplePort ''xds'' 8001 8001 0, examplePort ''http'' 80 8080 0,
          examplePort ''https'' 443 8443 0] ''10.0.0.7'' 0), True)"
proof -
  let ?c = "exampleService ''ClusterIP''
         [examplePort ''xds'' 8001 8001 0, examplePort ''http'' 80 8080 0] ''10.0.0.7'' 0"
  let ?e = "exampleService ''ClusterIP''
         [examplePort ''xds'' 8001 8001 0, examplePort ''http'' 80 8080 0,
          examplePort ''https'' 443 8443 0] '''' 0"
  have len: "length (Ports (Spec ?c)) \<noteq> length (Ports (Spec ?e))"
    by (simp add: example_defs)
  have sel: "DeepEqual_map (Selector (Spec ?c)) (Selector (Spec ?e))"
    by (simp add: example_defs DeepEqual_map_refl)
  have sa: "SessionAffinity (Spec ?c) = SessionAffinity (Spec ?e)"
    and ty: "Type (Spec ?c) = Type (Spec ?e)"
    by (simp_all add: example_defs)
  have "ClusterIpServiceChanged ?c ?e =
          (Some (?c\<lparr>Spec := (Spec ?c)\<lparr>Ports := Ports (Spec ?e)\<rparr>\<rparr>), True)"
    by (rule ClusterIp_port_count_mismatch_replaces_ports [OF len sel sa ty])
  then show ?thesis
    using len by (simp add: example_defs)
qed

subsection \<open>C7: equal inputs\<close>

text \<open>
  Claim C7 says that each of the five functions returns \<open>changed = false\<close> when \<open>current\<close>
  equals \<open>expected\<close> field for field. This holds for \<open>DaemonsetConfigChanged\<close>,
  \<open>DeploymentConfigChanged\<close>, \<open>ClusterIpServiceChanged\<close> and \<open>LoadBalancerServiceChanged\<close>
  (the semantic equality of the library being reflexive on the spec at hand). For
  \<open>JobConfigChanged\<close> it holds exactly when the pod-template labels of \<open>current\<close> are nil
  or contain the ownership marker key: the marker check reads \<open>current\<close> alone and
  reports a change whenever the labels are non-nil without the key.
\<close>

theorem equal_inputs_unchanged:
  "(deq1 (Spec d) (Spec d) \<longrightarrow> DaemonsetConfigChanged deq1 d d = (None, False))
 \<and> (deq2 (Spec p) (Spec p) \<longrightarrow> DeploymentConfigChanged deq2 p p = (None, False))
 \<and> ClusterIpServiceChanged s s = (None, False)
 \<and> LoadBalancerServiceChanged b b = (None, False)
 \<and> (deq3 (Template_Spec (Template (Spec j))) (Template_Spec (Template (Spec j))) \<longrightarrow>
      snd (JobConfigChanged k deq3 j j) =
        (\<exists>labels. Labels (Template_ObjectMeta (Template (Spec j))) = Some labels
                 \<and> fmlookup labels k = None))"
  by (auto simp add: DaemonsetConfigChanged_result DeploymentConfigChanged_result
      ClusterIpServiceChanged_result LoadBalancerServiceChanged_result lbDiffers_same
      JobConfigChanged_result jobDiffers_same DeepEqual_map_refl split: option.splits)

theorem equal_inputs_unchanged_witness:
  "DaemonsetConfigChanged (=) (exampleWorkload ''41'' None ''envoy:v1'')
      (exampleWorkload ''41'' None ''envoy:v1'') = (None, False)
 \<and> DeploymentConfigChanged (=) (exampleWorkload ''41'' None ''contour:v1'')
      (exampleWorkload ''41'' None ''contour:v1'') = (None, False)
 \<and> ClusterIpServiceChanged
      (exampleService ''ClusterIP'' [examplePort ''xds'' 8001 8001 0] ''10.0.0.7'' 0)
      (exampleService ''ClusterIP'' [examplePort ''xds'' 8001 8001 0] ''10.0.0.7'' 0) = (None, False)
 \<and> LoadBalancerServiceChanged
      (exampleService ''LoadBalancer'' [examplePort ''http'' 80 8080 30080] ''10.0.0.7'' 32000)
      (exampleService ''LoadBalancer'' [examplePort ''http'' 80 8080 30080] ''10.0.0.7'' 32000)
      = (None, False)
 \<and> \<not> snd (JobConfigChanged exampleOwningLabel (=)
      (exampleJob (Some 1) (Some 1) (Some (fmupd exampleOwningLabel ''contour'' fmempty)))
      (exampleJob (Some 1) (Some 1) (Some (fmupd exampleOwningLabel ''contour'' fmempty))))"
  using equal_inputs_unchanged [of "(=)" "exampleWorkload ''41'' None ''envoy:v1''"
      "(=)" "exampleWorkload ''41'' None ''contour:v1''"
      "exampleService ''ClusterIP'' [examplePort ''xds'' 8001 8001 0] ''10.0.0.7'' 0"
      "exampleService ''LoadBalancer'' [examplePort ''http'' 80 8080 30080] ''10.0.0.7'' 32000"
      "(=)" "exampleJob (Some 1) (Some 1) (Some (fmupd exampleOwningLabel ''contour'' fmempty))"
      exampleOwningLabel]
  by (simp add: exampleJob_def exampleMeta_def)

text \<open>
  Against C7 as stated: a job whose template labels are the empty non-nil map, compared
  with itself, is reported changed.
\<close>

theorem Job_equal_inputs_changed_counterexample:
  "JobConfigChanged exampleOwningLabel (=)
      (exampleJob (Some 1) (Some 1) (Some fmempty)) (exampleJob (Some 1) (Some 1) (Some fmempty))
     = (Some (exampleJob (Some 1) (Some 1) (Some fmempty)), True)"
  by (simp add: JobConfigChanged_def DeepEqual_map_def example_defs)

subsection \<open>C8: inputs that differ only in an excluded field\<close>

text \<open>
  Claim C8 says that inputs differing only in an excluded field give \<open>changed = false\<close>.
  This holds for the cluster address of the internal service and for the node ports and
  the health-check node port of the load-balancer service. For the completion count of
  the job it holds exactly when the pod-template labels of \<open>current\<close> are nil or contain
  the ownership marker key (the semantic equality of the library being reflexive on the
  pod spec at hand).
\<close>

theorem excluded_field_unchanged:
  "ClusterIpServiceChanged s (s\<lparr>Spec := (Spec s)\<lparr>ClusterIP := ip\<rparr>\<rparr>) = (None, False)
 \<and> (length eports = length (Ports (Spec b))
    \<and> (\<forall>i < length eports. eports ! i = (Ports (Spec b) ! i)\<lparr>NodePort := NodePort (eports ! i)\<rparr>) \<longrightarrow>
      LoadBalancerServiceChanged b (b\<lparr>Spec := (Spec b)\<lparr>Ports := eports, HealthCheckNodePort := h\<rparr>\<rparr>)
        = (None, False))
 \<and> (deq (Template_Spec (Template (Spec j))) (Template_Spec (Template (Spec j))) \<longrightarrow>
      snd (JobConfigChanged k deq j (j\<lparr>Spec := (Spec j)\<lparr>Completions := n\<rparr>\<rparr>)) =
        (\<exists>labels. Labels (Template_ObjectMeta (Template (Spec j))) = Some labels
                 \<and> fmlookup labels k = None))"
proof (intro conjI impI)
  show "ClusterIpServiceChanged s (s\<lparr>Spec := (Spec s)\<lparr>ClusterIP := ip\<rparr>\<rparr>) = (None, False)"
    by (simp add: ClusterIpServiceChanged_result DeepEqual_map_refl)
next
  assume "length eports = length (Ports (Spec b))
    \<and> (\<forall>i < length eports. eports ! i = (Ports (Spec b) ! i)\<lparr>NodePort := NodePort (eports ! i)\<rparr>)"
  then show "LoadBalancerServiceChanged b
               (b\<lparr>Spec := (Spec b)\<lparr>Ports := eports, HealthCheckNodePort := h\<rparr>\<rparr>) = (None, False)"
    using lbDiffers_node_ports [of eports b h] by (simp add: LoadBalancerServiceChanged_result)
next
  assume "deq (Template_Spec (Template (Spec j))) (Template_Spec (Template (Spec j)))"
  then show "snd (JobConfigChanged k deq j (j\<lparr>Spec := (Spec j)\<lparr>Completions := n\<rparr>\<rparr>)) =
        (\<exists>labels. Labels (Template_ObjectMeta (Template (Spec j))) = Some labels
                 \<and> fmlookup labels k = None)"
    by (auto simp add: JobConfigChanged_result jobDiffers_def DeepEqual_map_refl split: option.splits)
qed

theorem excluded_field_unchanged_witness:
  "ClusterIpServiceChanged
      (exampleService ''ClusterIP'' [examplePort ''xds'' 8001 8001 0] ''10.0.0.7'' 0)
      (exampleService ''ClusterIP'' [examplePort ''xds'' 8001 8001 0] '''' 0) = (None, False)
 \<and> LoadBalancerServiceChanged
      (exampleService ''LoadBalancer''
         [examplePort ''http'' 80 8080 30080, examplePort ''https'' 443 8443 30443] ''10.0.0.7'' 32000)
      (exampleService ''LoadBalancer''
         [examplePort ''http'' 80 8080 0, examplePort ''https'' 443 8443 0] ''10.0.0.7'' 0)
      = (None, False)
 \<and> \<not> snd (JobConfigChanged exampleOwningLabel (=)
      (exampleJob (Some 1) (Some 1) (Some (fmupd exampleOwningLabel ''contour'' fmempty)))
      (exampleJob (Some 1) None (Some (fmupd exampleOwningLabel ''contour'' fmempty))))"
proof -
  let ?s = "exampleService ''ClusterIP'' [examplePort ''xds'' 8001 8001 0] ''10.0.0.7'' 0"
  let ?b = "exampleService ''LoadBalancer''
         [examplePort ''http'' 80 8080 30080, examplePort ''https'' 443 8443 30443] ''10.0.0.7'' 32000"
  let ?eports = "[examplePort ''http'' 80 8080 0, examplePort ''https'' 443 8443 0]"
  let ?j = "exampleJob (Some 1) (Some 1) (Some (fmupd exampleOwningLabel ''contour'' fmempty))"
  have h1: "length ?eports = length (Ports (Spec ?b))
    \<and> (\<forall>i < length ?eports. ?eports ! i = (Ports (Spec ?b) ! i)\<lparr>NodePort := NodePort (?eports ! i)\<rparr>)"
    by (simp add: example_defs less_Suc_eq)
  have h2: "Template_Spec (Template (Spec ?j)) = Template_Spec (Template (Spec ?j))"
    by simp
  have e1: "?s\<lparr>Spec := (Spec ?s)\<lparr>ClusterIP := ''''\<rparr>\<rparr>
              = exampleService ''ClusterIP'' [examplePort ''xds'' 8001 8001 0] '''' 0"
    by (simp add: example_defs)
  have e2: "?b\<lparr>Spec := (Spec ?b)\<lparr>Ports := ?eports, HealthCheckNodePort := 0\<rparr>\<rparr>
              = exampleService ''LoadBalancer'' ?eports ''10.0.0.7'' 0"
    by (simp add: example_defs)
  have e3: "?j\<lparr>Spec := (Spec ?j)\<lparr>Completions := None\<rparr>\<rparr>
              = exampleJob (Some 1) None (Some (fmupd exampleOwningLabel ''contour'' fmempty))"
    by (simp add: example_defs)
  have e4: "\<not> (\<exists>labels. Labels (Template_ObjectMeta (Template (Spec ?j))) = Some labels
                 \<and> fmlookup labels exampleOwningLabel = None)"
    by (simp add: example_defs)
  from excluded_field_unchanged [of ?s "''''" ?eports ?b 0 "(=)" ?j exampleOwningLabel None]
    h1 h2 e4 show ?thesis
    unfolding e1 e2 e3 by blast
qed

text \<open>
  Against C8 as stated: two jobs that differ only in the completion count, with a
  job-generated template label and no ownership marker, are reported changed.
\<close>

theorem Job_completions_only_changed_counterexample:
  "exampleJob (Some 1) (Some 2) (Some (fmupd ''job-name'' ''contour-certgen'' fmempty))
     = (exampleJob (Some 1) (Some 1) (Some (fmupd ''job-name'' ''contour-certgen'' fmempty)))
         \<lparr>Spec := (Spec (exampleJob (Some 1) (Some 1) (Some (fmupd ''job-name'' ''contour-certgen'' fmempty))))
                    \<lparr>Completions := Some 2\<rparr>\<rparr>
   \<and> snd (JobConfigChanged exampleOwningLabel (=)
        (exampleJob (Some 1) (Some 1) (Some (fmupd ''job-name'' ''contour-certgen'' fmempty)))
        (exampleJob (Some 1) (Some 2) (Some (fmupd ''job-name'' ''contour-certgen'' fmempty))))"
  by (simp add: JobConfigChanged_def DeepEqual_map_def example_defs)

subsection \<open>C9: updated is nil exactly when nothing changed\<close>

text \<open>
  Claim C9: for each of the five functions and every pair of inputs, the returned
  \<open>updated\<close> is nil if and only if \<open>changed\<close> is false.
\<close>

theorem updated_nil_iff_unchanged:
  "(fst (DaemonsetConfigChanged deq1 d1 d2) = None) = (\<not> snd (DaemonsetConfigChanged deq1 d1 d2))
 \<and> (fst (JobConfigChanged k deq2 j1 j2) = None) = (\<not> snd (JobConfigChanged k deq2 j1 j2))
 \<and> (fst (DeploymentConfigChanged deq3 p1 p2) = None) = (\<not> snd (DeploymentConfigChanged deq3 p1 p2))
 \<and> (fst (ClusterIpServiceChanged s1 s2) = None) = (\<not> snd (ClusterIpServiceChanged s1 s2))
 \<and> (fst (LoadBalancerServiceChanged b1 b2) = None) = (\<not> snd (LoadBalancerServiceChanged b1 b2))"
  by (simp add: DaemonsetConfigChanged_result JobConfigChanged_result DeploymentConfigChanged_result
      ClusterIpServiceChanged_result LoadBalancerServiceChanged_result)

theorem updated_nil_iff_unchanged_witness:
  "fst (DaemonsetConfigChanged (=) (exampleWorkload ''41'' None ''envoy:v1'')
          (exampleWorkload '''' None ''envoy:v2'')) \<noteq> None
 \<and> fst (JobConfigChanged exampleOwningLabel (=)
          (exampleJob (Some 1) (Some 1) None) (exampleJob (Some 1) (Some 1) None)) = None
 \<and> fst (DeploymentConfigChanged (=) (exampleWorkload ''41'' None ''contour:v1'')
          (exampleWorkload '''' None ''contour:v2'')) \<noteq> None
 \<and> fst (ClusterIpServiceChanged
          (exampleService ''ClusterIP'' [examplePort ''xds'' 8001 8001 0] ''10.0.0.7'' 0)
          (exampleService ''ClusterIP'' [] '''' 0)) \<noteq> None
 \<and> fst (LoadBalancerServiceChanged
          (exampleService ''LoadBalancer'' [examplePort ''http'' 80 8080 30080] ''10.0.0.7'' 32000)
          (exampleService ''LoadBalancer'' [examplePort ''http'' 80 8080 0] '''' 0)) = None"
proof -
  have "snd (DaemonsetConfigChanged (=) (exampleWorkload ''41'' None ''envoy:v1'')
          (exampleWorkload '''' None ''envoy:v2''))"
    by (simp add: DaemonsetConfigChanged_def DeepEqual_map_def example_defs)
  moreover have "\<not> snd (JobConfigChanged exampleOwningLabel (=)
          (exampleJob (Some 1) (Some 1) None) (exampleJob (Some 1) (Some 1) None))"
    by (simp add: JobConfigChanged_def DeepEqual_map_def example_defs)
  moreover have "snd (DeploymentConfigChanged (=) (exampleWorkload ''41'' None ''contour:v1'')
          (exampleWorkload '''' None ''contour:v2''))"
    by (simp add: DeploymentConfigChanged_def DeepEqual_map_def example_defs)
  moreover have "snd (ClusterIpServiceChanged
          (exampleService ''ClusterIP'' [examplePort ''xds'' 8001 8001 0] ''10.0.0.7'' 0)
          (exampleService ''ClusterIP'' [] '''' 0))"
    by (simp add: ClusterIpServiceChanged_def DeepEqual_map_def example_defs)
  moreover have "\<not> snd (LoadBalancerServiceChanged
          (exampleService ''LoadBalancer'' [examplePort ''http'' 80 8080 30080] ''10.0.0.7'' 32000)
          (exampleService ''LoadBalancer'' [examplePort ''http'' 80 8080 0] '''' 0))"
    by (simp add: LoadBalancerServiceChanged_def portsLoopBody_def DeepEqual_map_def example_defs)
  ultimately show ?thesis
    using updated_nil_iff_unchanged [of "(=)" "exampleWorkload ''41'' None ''envoy:v1''"
        "exampleWorkload '''' None ''envoy:v2''" exampleOwningLabel "(=)"
        "exampleJob (Some 1) (Some 1) None" "exampleJob (Some 1) (Some 1) None"
        "(=)" "exampleWorkload ''41'' None ''contour:v1''" "exampleWorkload '''' None ''contour:v2''"
        "exampleService ''ClusterIP'' [examplePort ''xds'' 8001 8001 0] ''10.0.0.7'' 0"
        "exampleService ''ClusterIP'' [] '''' 0"
        "exampleService ''LoadBalancer'' [examplePort ''http'' 80 8080 30080] ''10.0.0.7'' 32000"
        "exampleService ''LoadBalancer'' [examplePort ''http'' 80 8080 0] '''' 0"]
    by blast
qed

subsection \<open>C10: nil template labels\<close>

text \<open>
  Claim C10: for \<open>JobConfigChanged\<close>, when the pod-template labels of \<open>current\<close> are nil the
  ownership-marker check is skipped, and \<open>changed\<close> is decided by the comparisons of the
  labels, the parallelism, the backoff limit and the template spec alone; when they are
  the empty non-nil map the result is \<open>changed = true\<close>. A nil map and an empty map thus
  behave differently.
\<close>

theorem Job_nil_template_labels_skip_marker_check:
  "(Labels (Template_ObjectMeta (Template (Spec current))) = None \<longrightarrow>
      snd (JobConfigChanged owningContourLabel deq current expected) =
        (\<not> DeepEqual_map (Labels (ObjectMeta current)) (Labels (ObjectMeta expected))
         \<or> Parallelism (Spec current) \<noteq> Parallelism (Spec expected)
         \<or> BackoffLimit (Spec current) \<noteq> BackoffLimit (Spec expected)
         \<or> \<not> deq (Template_Spec (Template (Spec current))) (Template_Spec (Template (Spec expected)))))
 \<and> (Labels (Template_ObjectMeta (Template (Spec current))) = Some fmempty \<longrightarrow>
      snd (JobConfigChanged owningContourLabel deq current expected))"
  by (auto simp add: JobConfigChanged_result jobDiffers_def)

text \<open>
  The same job compared with an \<open>expected\<close> that carries the marker: with nil template
  labels nothing changed, with empty template labels the job is replaced.
\<close>

theorem Job_nil_template_labels_skip_marker_check_witness:
  "Labels (Template_ObjectMeta (Template (Spec (exampleJob (Some 1) (Some 1) None)))) = None
 \<and> \<not> snd (JobConfigChanged exampleOwningLabel (=)
          (exampleJob (Some 1) (Some 1) None)
          (exampleJob (Some 1) (Some 1) (Some (fmupd exampleOwningLabel ''contour'' fmempty))))
 \<and> Labels (Template_ObjectMeta (Template (Spec (exampleJob (Some 1) (Some 1) (Some fmempty)))))
     = Some fmempty
 \<and> snd (JobConfigChanged exampleOwningLabel (=)
          (exampleJob (Some 1) (Some 1) (Some fmempty))
          (exampleJob (Some 1) (Some 1) (Some (fmupd exampleOwningLabel ''contour'' fmempty))))"
  using Job_nil_template_labels_skip_marker_check [of "exampleJob (Some 1) (Some 1) None"
      exampleOwningLabel "(=)"
      "exampleJob (Some 1) (Some 1) (Some (fmupd exampleOwningLabel ''contour'' fmempty))"]
    Job_nil_template_labels_skip_marker_check [of "exampleJob (Some 1) (Some 1) (Some fmempty)"
      exampleOwningLabel "(=)"
      "exampleJob (Some 1) (Some 1) (Some (fmupd exampleOwningLabel ''contour'' fmempty))"]
  by (simp add: exampleJob_def exampleMeta_def DeepEqual_map_def)

end
